theory Spec2Isabelle
  imports Main
begin

section \<open>JavaScript values read by the components\<close>

text \<open>
  The two components of \<^verbatim>\<open>APIUsageExamples.js\<close> read parsed JSON bodies, build
  strings from them with template literals and probe error objects with optional chaining.
  The values are modelled as the JSON values plus \<^verbatim>\<open>undefined\<close>. A \<open>string\<close>
  holds the UTF-8 bytes of the JavaScript string. A number is held as the text that
  JavaScript prints for it (\<^verbatim>\<open>1000\<close>, \<^verbatim>\<open>0.5\<close>, \<^verbatim>\<open>1e+21\<close>): the
  components print numbers and test them in \<^verbatim>\<open>||\<close>, and do nothing else with them.
  An object is the list of its own properties, every key once.
\<close>

datatype json =
    JUndefined
  | JNull
  | JBool bool
  | JNum string
  | JStr string
  | JArr "json list"
  | JObj "(string \<times> json) list"

text \<open>Decimal notation of a length.\<close>

fun show_nat :: "nat \<Rightarrow> string" where
  "show_nat n =
     (if n < 10 then [char_of (48 + n)]
      else show_nat (n div 10) @ [char_of (48 + n mod 10)])"

declare show_nat.simps [simp del]

text \<open>The operand of \<^verbatim>\<open>||\<close> counts as true unless it is one of these.\<close>

fun truthy :: "json \<Rightarrow> bool" where
  "truthy JUndefined = False"
| "truthy JNull = False"
| "truthy (JBool b) = b"
| "truthy (JNum n) = (n \<noteq> ''0'' \<and> n \<noteq> ''NaN'')"
| "truthy (JStr s) = (s \<noteq> [])"
| "truthy (JArr xs) = True"
| "truthy (JObj kvs) = True"

definition js_or :: "json \<Rightarrow> json \<Rightarrow> json" where
  "js_or a b = (if truthy a then a else b)"

text \<open>
  \<^verbatim>\<open>s.length\<close> counts UTF-16 code units: one for every UTF-8 sequence of up to three
  bytes, two for a sequence of four.
\<close>

definition units_of_byte :: "char \<Rightarrow> nat" where
  "units_of_byte c =
     (let n = (of_char c :: nat)
      in if n < 128 then 1 else if n < 192 then 0 else if n < 240 then 1 else 2)"

definition js_length :: "string \<Rightarrow> nat" where
  "js_length s = sum_list (map units_of_byte s)"

text \<open>
  \<^verbatim>\<open>v.k\<close> for a value that is neither \<^verbatim>\<open>null\<close> nor \<^verbatim>\<open>undefined\<close>, for the
  property names the components read (\<^verbatim>\<open>length\<close>, \<^verbatim>\<open>id\<close>, \<^verbatim>\<open>email\<close>,
  \<^verbatim>\<open>orderId\<close>, \<^verbatim>\<open>message\<close>).
\<close>

fun property :: "json \<Rightarrow> string \<Rightarrow> json" where
  "property (JObj kvs) k = (case map_of kvs k of Some v \<Rightarrow> v | None \<Rightarrow> JUndefined)"
| "property (JArr xs) k = (if k = ''length'' then JNum (show_nat (length xs)) else JUndefined)"
| "property (JStr s) k = (if k = ''length'' then JNum (show_nat (js_length s)) else JUndefined)"
| "property v k = JUndefined"

section \<open>Requests, responses and errors\<close>

datatype verb = GET | POST | PATCH | DELETE

record request =
  meth :: verb
  path :: string
  body :: "json option"
  headers :: "(string \<times> string) list"

record response =
  status :: int
  data :: json

text \<open>
  What a \<^verbatim>\<open>catch\<close> clause receives: an object with a \<^verbatim>\<open>message\<close> and, when the
  server answered, the \<^verbatim>\<open>response\<close>.
\<close>

record js_error =
  err_message :: string
  err_response :: "response option"

datatype outcome = Resolved response | Rejected js_error

text \<open>
  The helper \<^verbatim>\<open>api\<close> of \<^verbatim>\<open>@/lib/api\<close> and the server behind it are the
  environment: a call takes the remote state and the request and gives how the promise
  settles and the remote state afterwards.
\<close>

type_synonym 'w api = "'w \<Rightarrow> request \<Rightarrow> outcome \<times> 'w"

text \<open>
  Reading a property of \<^verbatim>\<open>null\<close> or \<^verbatim>\<open>undefined\<close> throws a TypeError (the
  wording is V8's).
\<close>

definition type_error :: "string \<Rightarrow> string \<Rightarrow> js_error" where
  "type_error v k =
     \<lparr>err_message = ''Cannot read properties of '' @ v @ '' (reading '' @
        [CHR 0x27] @ k @ [CHR 0x27] @ '')'',
      err_response = None\<rparr>"

definition member :: "json \<Rightarrow> string \<Rightarrow> js_error + json" where
  "member v k =
     (case v of
        JUndefined \<Rightarrow> Inl (type_error ''undefined'' k)
      | JNull \<Rightarrow> Inl (type_error ''null'' k)
      | _ \<Rightarrow> Inr (property v k))"

text \<open>
  \<^verbatim>\<open>`${v}`\<close>: the string a template literal puts for a value, or the TypeError it
  throws. A parsed object prints as \<^verbatim>\<open>[object Object]\<close> through the
  \<^verbatim>\<open>toString\<close> it inherits; when it has a property \<^verbatim>\<open>toString\<close> of its own,
  which is no function, the conversion finds nothing to call that gives a primitive and
  throws (the wording is V8's). An array prints its elements joined by commas, with nothing
  for \<^verbatim>\<open>null\<close> and \<^verbatim>\<open>undefined\<close>, and throws where the first of its elements
  that throws does.
\<close>

definition cannot_convert :: js_error where
  "cannot_convert =
     \<lparr>err_message = ''Cannot convert object to primitive value'', err_response = None\<rparr>"

fun join_comma :: "(js_error + string) list \<Rightarrow> js_error + string" where
  "join_comma [] = Inr []"
| "join_comma (Inl error # ps) = Inl error"
| "join_comma [Inr s] = Inr s"
| "join_comma (Inr s # p # ps) =
     (case join_comma (p # ps) of
        Inl error \<Rightarrow> Inl error
      | Inr t \<Rightarrow> Inr (s @ CHR '','' # t))"

fun to_str :: "json \<Rightarrow> js_error + string" where
  "to_str JUndefined = Inr ''undefined''"
| "to_str JNull = Inr ''null''"
| "to_str (JBool b) = Inr (if b then ''true'' else ''false'')"
| "to_str (JNum n) = Inr n"
| "to_str (JStr s) = Inr s"
| "to_str (JArr xs) =
     join_comma (map (\<lambda>x. if x = JUndefined \<or> x = JNull then Inr [] else to_str x) xs)"
| "to_str (JObj kvs) =
     (case map_of kvs ''toString'' of
        None \<Rightarrow> Inr ''[object Object]''
      | Some f \<Rightarrow> Inl cannot_convert)"

text \<open>\<^verbatim>\<open>`${v.k}`\<close>\<close>

definition interpolate :: "json \<Rightarrow> string \<Rightarrow> js_error + string" where
  "interpolate v k = (case member v k of Inl error \<Rightarrow> Inl error | Inr x \<Rightarrow> to_str x)"

text \<open>
  The text of a value that prints. (No request is built from a value that does not; the
  empty text stands for it.)
\<close>

definition printed :: "json \<Rightarrow> string" where
  "printed v = (case to_str v of Inl error \<Rightarrow> [] | Inr s \<Rightarrow> s)"

text \<open>\<^verbatim>\<open>error.response?.data?.message\<close>\<close>

definition response_message :: "js_error \<Rightarrow> json" where
  "response_message error =
     (case err_response error of
        None \<Rightarrow> JUndefined
      | Some r \<Rightarrow>
          (case data r of
             JUndefined \<Rightarrow> JUndefined
           | JNull \<Rightarrow> JUndefined
           | d \<Rightarrow> property d ''message''))"

section \<open>Effects of a handler\<close>

text \<open>
  A handler calls the three state setters, the \<^verbatim>\<open>api\<close> and \<^verbatim>\<open>console.error\<close>.
  \<open>Api q out\<close> records the request handed to the \<^verbatim>\<open>api\<close> together with the way
  its promise settles.
\<close>

datatype effect =
    SetEvents json
  | SetLoading bool
  | SetMessage string
  | Api request outcome
  | ConsoleError string js_error

datatype completion = Normal | Throw js_error

type_synonym block = "effect list \<times> completion"

text \<open>
  \<^verbatim>\<open>try { tried } catch (error) { handler } finally { final }\<close>: the handler runs when
  the tried block throws, the final block runs in every case, and the statement completes
  the way the tried block (or the handler) did unless the final block throws itself.
\<close>

definition try_catch_finally :: "block \<Rightarrow> (js_error \<Rightarrow> block) \<Rightarrow> block \<Rightarrow> block" where
  "try_catch_finally tried handler final =
     (let (t1, c1) = tried;
          (t2, c2) = (case c1 of Normal \<Rightarrow> ([], Normal) | Throw e \<Rightarrow> handler e);
          (t3, c3) = final
      in (t1 @ t2 @ t3, case c3 of Normal \<Rightarrow> c2 | Throw e \<Rightarrow> Throw e))"

text \<open>The pictographs U+2705 and U+274C that open every message.\<close>

definition check_mark :: string where
  "check_mark = [CHR 0xE2, CHR 0x9C, CHR 0x85]"

definition cross_mark :: string where
  "cross_mark = [CHR 0xE2, CHR 0x9D, CHR 0x8C]"

text \<open>
  The run of one handler: \<open>own\<close> holds what happens until the promise of the handler
  settles and how it settles; \<open>detached\<close> holds what a \<^verbatim>\<open>fetchEvents()\<close> that the
  handler called without \<^verbatim>\<open>await\<close> does after that.
\<close>

record 'w run =
  own :: block
  detached :: block
  world :: 'w

section \<open>APIUsageExamples\<close>

subsection \<open>fetchEvents\<close>

definition get_events :: request where
  "get_events = \<lparr>meth = GET, path = ''/events'', body = None, headers = []\<rparr>"

text \<open>Up to the \<^verbatim>\<open>await\<close>: two setters and the request.\<close>

definition fetchEvents_begin :: "'w api \<Rightarrow> 'w \<Rightarrow> effect list \<times> outcome \<times> 'w" where
  "fetchEvents_begin api w =
     (let (out, w') = api w get_events
      in ([SetLoading True, SetMessage [], Api get_events out], out, w'))"

definition fetchEvents_try :: "outcome \<Rightarrow> block" where
  "fetchEvents_try out =
     (case out of
        Rejected error \<Rightarrow> ([], Throw error)
      | Resolved r \<Rightarrow>
          (case interpolate (data r) ''length'' of
             Inl error \<Rightarrow> ([SetEvents (data r)], Throw error)
           | Inr n \<Rightarrow>
               ([SetEvents (data r),
                 SetMessage (check_mark @ '' Fetched '' @ n @ '' events'')], Normal)))"

definition fetchEvents_catch :: "js_error \<Rightarrow> block" where
  "fetchEvents_catch error =
     ([ConsoleError ''Error fetching events:'' error,
       SetMessage (cross_mark @ '' Error: '' @ err_message error)], Normal)"

definition finally_block :: block where
  "finally_block = ([SetLoading False], Normal)"

text \<open>From the \<^verbatim>\<open>await\<close> on.\<close>

definition fetchEvents_resume :: "outcome \<Rightarrow> block" where
  "fetchEvents_resume out =
     try_catch_finally (fetchEvents_try out) fetchEvents_catch finally_block"

definition fetchEvents :: "'w api \<Rightarrow> 'w \<Rightarrow> 'w run" where
  "fetchEvents api w =
     (let (pre, out, w') = fetchEvents_begin api w;
          (post, c) = fetchEvents_resume out
      in \<lparr>own = (pre @ post, c), detached = ([], Normal), world = w'\<rparr>)"

subsection \<open>The handlers that probe the response of an error\<close>

text \<open>
  The \<^verbatim>\<open>catch\<close> clause of the other five handlers, which differ in the label they log:
  \<^verbatim>\<open>setMessage(`... Error: ${error.response?.data?.message || error.message}`)\<close>,
  after \<^verbatim>\<open>console.error\<close>. The template literal is evaluated before
  \<^verbatim>\<open>setMessage\<close> is called: where it throws, no message is set and the clause throws.
\<close>

definition response_catch :: "string \<Rightarrow> js_error \<Rightarrow> block" where
  "response_catch label error =
     (case to_str (js_or (response_message error) (JStr (err_message error))) of
        Inl raised \<Rightarrow> ([ConsoleError label error], Throw raised)
      | Inr m \<Rightarrow>
          ([ConsoleError label error, SetMessage (cross_mark @ '' Error: '' @ m)], Normal))"

text \<open>
  \<^verbatim>\<open>fetchEvents()\<close> inside a \<^verbatim>\<open>try\<close> block, after the success message: the call
  runs to its \<^verbatim>\<open>await\<close> and returns a promise nobody waits for; the rest of it is
  detached.
\<close>

definition then_refetch :: "'w api \<Rightarrow> 'w \<Rightarrow> effect list \<Rightarrow> block \<times> block \<times> 'w" where
  "then_refetch api w said =
     (let (pre, out, w') = fetchEvents_begin api w
      in ((said @ pre, Normal), fetchEvents_resume out, w'))"

text \<open>A \<^verbatim>\<open>try\<close> block that throws: nothing is said, nothing is left behind.\<close>

definition thrown :: "js_error \<Rightarrow> 'w \<Rightarrow> block \<times> block \<times> 'w" where
  "thrown error w = (([], Throw error), ([], Normal), w)"

definition finish :: "effect list \<Rightarrow> string \<Rightarrow> block \<times> block \<times> 'w \<Rightarrow> 'w run" where
  "finish pre label r =
     (let (tried, det, w') = r;
          (t, c) = try_catch_finally tried (response_catch label) finally_block
      in \<lparr>own = (pre @ t, c), detached = det, world = w'\<rparr>)"

subsection \<open>createEvent\<close>

text \<open>\<open>now\<close> is \<^verbatim>\<open>new Date().toISOString()\<close>.\<close>

definition newEvent :: "string \<Rightarrow> json" where
  "newEvent now =
     JObj [(''title'', JStr ''Test Event''),
           (''description'', JStr ''This is a test event created via API''),
           (''date'', JStr now),
           (''location'', JStr ''Nairobi, Kenya''),
           (''category'', JStr ''Technology''),
           (''price'', JNum ''1000''),
           (''capacity'', JNum ''100''),
           (''organizerId'', JStr ''test-organizer-id'')]"

definition post_event :: "string \<Rightarrow> request" where
  "post_event now =
     \<lparr>meth = POST, path = ''/events'', body = Some (newEvent now), headers = []\<rparr>"

definition createEvent_try :: "'w api \<Rightarrow> 'w \<Rightarrow> outcome \<Rightarrow> block \<times> block \<times> 'w" where
  "createEvent_try api w out =
     (case out of
        Rejected error \<Rightarrow> thrown error w
      | Resolved r \<Rightarrow>
          (case interpolate (data r) ''id'' of
             Inl error \<Rightarrow> thrown error w
           | Inr i \<Rightarrow>
               then_refetch api w
                 [SetMessage (check_mark @ '' Event created with ID: '' @ i)]))"

definition createEvent :: "'w api \<Rightarrow> string \<Rightarrow> 'w \<Rightarrow> 'w run" where
  "createEvent api now w =
     (let (out, w1) = api w (post_event now)
      in finish [SetLoading True, SetMessage [], Api (post_event now) out]
           ''Error creating event:'' (createEvent_try api w1 out))"

subsection \<open>updateEvent\<close>

definition updates :: json where
  "updates =
     JObj [(''title'', JStr ''Updated Event Title''),
           (''description'', JStr ''This event has been updated'')]"

text \<open>The request for an \<open>eventId\<close> that prints.\<close>

definition patch_event :: "json \<Rightarrow> request" where
  "patch_event eventId =
     \<lparr>meth = PATCH, path = ''/events/'' @ printed eventId, body = Some updates,
      headers = []\<rparr>"

definition updateEvent_try :: "'w api \<Rightarrow> 'w \<Rightarrow> outcome \<Rightarrow> block \<times> block \<times> 'w" where
  "updateEvent_try api w out =
     (case out of
        Rejected error \<Rightarrow> thrown error w
      | Resolved r \<Rightarrow>
          then_refetch api w [SetMessage (check_mark @ '' Event updated successfully'')])"

text \<open>
  The path \<^verbatim>\<open>`/events/${eventId}`\<close> is built inside the \<^verbatim>\<open>try\<close> block, before
  the call: where it throws, nothing is requested.
\<close>

definition updateEvent :: "'w api \<Rightarrow> json \<Rightarrow> 'w \<Rightarrow> 'w run" where
  "updateEvent api eventId w =
     (case to_str eventId of
        Inl error \<Rightarrow>
          finish [SetLoading True, SetMessage []] ''Error updating event:'' (thrown error w)
      | Inr p \<Rightarrow>
          (let (out, w1) = api w (patch_event eventId)
           in finish [SetLoading True, SetMessage [], Api (patch_event eventId) out]
                ''Error updating event:'' (updateEvent_try api w1 out)))"

subsection \<open>deleteEvent\<close>

definition delete_event :: "json \<Rightarrow> request" where
  "delete_event eventId =
     \<lparr>meth = DELETE, path = ''/events/'' @ printed eventId, body = None, headers = []\<rparr>"

definition deleteEvent_try :: "'w api \<Rightarrow> 'w \<Rightarrow> outcome \<Rightarrow> block \<times> block \<times> 'w" where
  "deleteEvent_try api w out =
     (case out of
        Rejected error \<Rightarrow> thrown error w
      | Resolved r \<Rightarrow>
          then_refetch api w [SetMessage (check_mark @ '' Event deleted successfully'')])"

definition deleteEvent :: "'w api \<Rightarrow> json \<Rightarrow> 'w \<Rightarrow> 'w run" where
  "deleteEvent api eventId w =
     (case to_str eventId of
        Inl error \<Rightarrow>
          finish [SetLoading True, SetMessage []] ''Error deleting event:'' (thrown error w)
      | Inr p \<Rightarrow>
          (let (out, w1) = api w (delete_event eventId)
           in finish [SetLoading True, SetMessage [], Api (delete_event eventId) out]
                ''Error deleting event:'' (deleteEvent_try api w1 out)))"

subsection \<open>fetchWithAuth\<close>

definition get_user :: "json \<Rightarrow> request" where
  "get_user token =
     \<lparr>meth = GET, path = ''/auth/user'', body = None,
      headers = [(''Authorization'', ''Bearer '' @ printed token)]\<rparr>"

definition fetchWithAuth_try :: "'w \<Rightarrow> outcome \<Rightarrow> block \<times> block \<times> 'w" where
  "fetchWithAuth_try w out =
     (case out of
        Rejected error \<Rightarrow> thrown error w
      | Resolved r \<Rightarrow>
          (case interpolate (data r) ''email'' of
             Inl error \<Rightarrow> thrown error w
           | Inr email \<Rightarrow>
               (([SetMessage (check_mark @ '' User data fetched: '' @ email)], Normal),
                ([], Normal), w)))"

definition fetchWithAuth :: "'w api \<Rightarrow> json \<Rightarrow> 'w \<Rightarrow> 'w run" where
  "fetchWithAuth api token w =
     (case to_str token of
        Inl error \<Rightarrow>
          finish [SetLoading True, SetMessage []] ''Error fetching user:'' (thrown error w)
      | Inr p \<Rightarrow>
          (let (out, w1) = api w (get_user token)
           in finish [SetLoading True, SetMessage [], Api (get_user token) out]
                ''Error fetching user:'' (fetchWithAuth_try w1 out)))"

subsection \<open>submitOrder\<close>

definition orderData :: json where
  "orderData =
     JObj [(''userId'', JStr ''user-123''),
           (''cartItems'',
              JArr [JObj [(''eventId'', JStr ''event-1''), (''quantity'', JNum ''2''),
                          (''pricePerTicket'', JNum ''1000'')]]),
           (''customerEmail'', JStr ''test@example.com''),
           (''customerName'', JStr ''Test User''),
           (''customerPhone'', JStr ''254712345678'')]"

definition post_order :: request where
  "post_order =
     \<lparr>meth = POST, path = ''/orders'', body = Some orderData,
      headers = [(''X-Custom-Header'', ''custom-value'')]\<rparr>"

definition submitOrder_try :: "'w \<Rightarrow> outcome \<Rightarrow> block \<times> block \<times> 'w" where
  "submitOrder_try w out =
     (case out of
        Rejected error \<Rightarrow> thrown error w
      | Resolved r \<Rightarrow>
          (case interpolate (data r) ''orderId'' of
             Inl error \<Rightarrow> thrown error w
           | Inr orderId \<Rightarrow>
               (([SetMessage (check_mark @ '' Order created: '' @ orderId)], Normal),
                ([], Normal), w)))"

definition submitOrder :: "'w api \<Rightarrow> 'w \<Rightarrow> 'w run" where
  "submitOrder api w =
     (let (out, w1) = api w post_order
      in finish [SetLoading True, SetMessage [], Api post_order out]
           ''Error creating order:'' (submitOrder_try w1 out))"

subsection \<open>The component state\<close>

record component =
  events :: json
  loading :: bool
  message :: string

text \<open>The three \<^verbatim>\<open>useState\<close> initial values.\<close>

definition initial :: component where
  "initial = \<lparr>events = JArr [], loading = False, message = []\<rparr>"

fun apply_effect :: "effect \<Rightarrow> component \<Rightarrow> component" where
  "apply_effect (SetEvents d) s = s\<lparr>events := d\<rparr>"
| "apply_effect (SetLoading b) s = s\<lparr>loading := b\<rparr>"
| "apply_effect (SetMessage m) s = s\<lparr>message := m\<rparr>"
| "apply_effect (Api q out) s = s"
| "apply_effect (ConsoleError label error) s = s"

definition apply_trace :: "effect list \<Rightarrow> component \<Rightarrow> component" where
  "apply_trace t s = fold apply_effect t s"

definition trace_of :: "'w run \<Rightarrow> effect list" where
  "trace_of r = fst (own r) @ fst (detached r)"

text \<open>
  What a user (or the mount effect, which is \<open>FetchEvents\<close>) can start. \<open>step\<close>,
  \<open>session\<close> and \<open>run_ops\<close> run them one at a time, each until nothing of it is
  pending; rendering is not part of the model.
\<close>

datatype operation =
    FetchEvents
  | CreateEvent string
  | UpdateEvent json
  | DeleteEvent json
  | FetchWithAuth json
  | SubmitOrder

fun perform :: "'w api \<Rightarrow> operation \<Rightarrow> 'w \<Rightarrow> 'w run" where
  "perform api FetchEvents w = fetchEvents api w"
| "perform api (CreateEvent now) w = createEvent api now w"
| "perform api (UpdateEvent eventId) w = updateEvent api eventId w"
| "perform api (DeleteEvent eventId) w = deleteEvent api eventId w"
| "perform api (FetchWithAuth token) w = fetchWithAuth api token w"
| "perform api SubmitOrder w = submitOrder api w"

definition step :: "'w api \<Rightarrow> operation \<Rightarrow> component \<times> 'w \<Rightarrow> component \<times> 'w" where
  "step api opn sw =
     (let r = perform api opn (snd sw)
      in (apply_trace (trace_of r) (fst sw), world r))"

fun session :: "'w api \<Rightarrow> operation list \<Rightarrow> 'w \<Rightarrow> effect list \<times> 'w" where
  "session api [] w = ([], w)"
| "session api (opn # ops) w =
     (let r = perform api opn w;
          (t, w') = session api ops (world r)
      in (trace_of r @ t, w'))"

text \<open>The requests handed to the \<^verbatim>\<open>api\<close>, in order.\<close>

fun requests :: "effect list \<Rightarrow> request list" where
  "requests [] = []"
| "requests (Api q out # t) = q # requests t"
| "requests (e # t) = requests t"

text \<open>The body a \<^verbatim>\<open>GET /events\<close> resolved with, if the effect is one.\<close>

fun fetched :: "effect \<Rightarrow> json option" where
  "fetched (Api q (Resolved r)) = (if q = get_events then Some (data r) else None)"
| "fetched e = None"

text \<open>The body of the last \<^verbatim>\<open>GET /events\<close> of a trace that resolved.\<close>

fun newest :: "json option \<Rightarrow> effect list \<Rightarrow> json option" where
  "newest acc [] = acc"
| "newest acc (e # t) = newest (case fetched e of Some d \<Rightarrow> Some d | None \<Rightarrow> acc) t"

definition last_fetched :: "effect list \<Rightarrow> json option" where
  "last_fetched t = newest None t"

definition run_ops :: "'w api \<Rightarrow> operation list \<Rightarrow> component \<times> 'w \<Rightarrow> component \<times> 'w" where
  "run_ops api ops sw = fold (step api) ops sw"

text \<open>The request an operation starts with.\<close>

fun first_request :: "operation \<Rightarrow> request" where
  "first_request FetchEvents = get_events"
| "first_request (CreateEvent now) = post_event now"
| "first_request (UpdateEvent eventId) = patch_event eventId"
| "first_request (DeleteEvent eventId) = delete_event eventId"
| "first_request (FetchWithAuth token) = get_user token"
| "first_request SubmitOrder = post_order"

text \<open>
  Every \<^verbatim>\<open>setEvents(d)\<close> of a trace comes after a \<^verbatim>\<open>GET /events\<close> that resolved
  with the body \<open>d\<close>, with no other request in between: \<open>pending\<close> is the body of the
  latest request when that was such a fetch.
\<close>

fun justified :: "json option \<Rightarrow> effect list \<Rightarrow> bool" where
  "justified pending [] = True"
| "justified pending (SetEvents d # t) = (pending = Some d \<and> justified pending t)"
| "justified pending (Api q out # t) = justified (fetched (Api q out)) t"
| "justified pending (e # t) = justified pending t"

fun is_auth :: "operation \<Rightarrow> bool" where
  "is_auth (FetchWithAuth token) = True"
| "is_auth opn = False"

definition no_authorization :: "request \<Rightarrow> bool" where
  "no_authorization q = (map_of (headers q) ''Authorization'' = None)"

fun sets_events :: "effect \<Rightarrow> bool" where
  "sets_events (SetEvents d) = True"
| "sets_events e = False"

section \<open>EventListExample\<close>

record event_list =
  el_events :: json
  el_loading :: bool
  el_error :: "string option"

definition el_initial :: event_list where
  "el_initial = \<lparr>el_events = JArr [], el_loading = True, el_error = None\<rparr>"

text \<open>
  The mount effect: \<^verbatim>\<open>api.get('/events').then(...).catch(...)\<close>. Neither callback
  can throw, so the \<^verbatim>\<open>catch\<close> callback runs exactly when the request is rejected.
\<close>

definition EventListExample_mount :: "'w api \<Rightarrow> event_list \<times> 'w \<Rightarrow> event_list \<times> 'w" where
  "EventListExample_mount api sw =
     (case api (snd sw) get_events of
        (Resolved r, w') \<Rightarrow> ((fst sw)\<lparr>el_events := data r, el_loading := False\<rparr>, w')
      | (Rejected error, w') \<Rightarrow>
          ((fst sw)\<lparr>el_error := Some (err_message error), el_loading := False\<rparr>, w'))"

section \<open>A server to run the components against\<close>

text \<open>
  The remote state is the list of events. \<^verbatim>\<open>GET /events\<close> answers 200 with the list,
  \<^verbatim>\<open>POST /events\<close> stores an event and answers 201 with its id, every
  \<^verbatim>\<open>DELETE\<close> is answered 404 with a message in the body, and nothing else gets
  through to the server.
\<close>

definition demo_server :: "json list api" where
  "demo_server w q =
     (if meth q = GET \<and> path q = ''/events'' then
        (Resolved \<lparr>status = 200, data = JArr w\<rparr>, w)
      else if meth q = POST \<and> path q = ''/events'' then
        (Resolved \<lparr>status = 201, data = JObj [(''id'', JStr ''abc123'')]\<rparr>,
         w @ [JObj [(''id'', JStr ''abc123'')]])
      else if meth q = DELETE then
        (Rejected \<lparr>err_message = ''Request failed with status code 404'',
           err_response =
             Some \<lparr>status = 404, data = JObj [(''message'', JStr ''not found'')]\<rparr>\<rparr>, w)
      else (Rejected \<lparr>err_message = ''Network Error'', err_response = None\<rparr>, w))"

section \<open>Traces of the handlers\<close>

lemma show_nat_one: "show_nat (Suc 0) = ''1''"
  by code_simp

lemma apply_trace_Nil [simp]: "apply_trace [] s = s"
  by (simp add: apply_trace_def)

lemma apply_trace_Cons [simp]: "apply_trace (e # t) s = apply_trace t (apply_effect e s)"
  by (simp add: apply_trace_def)

lemma apply_trace_append [simp]: "apply_trace (t @ u) s = apply_trace u (apply_trace t s)"
  by (simp add: apply_trace_def)

lemma requests_append [simp]: "requests (t @ u) = requests t @ requests u"
  by (induction t rule: requests.induct) simp_all

lemma newest_append [simp]: "newest acc (t @ u) = newest (newest acc t) u"
  by (induction t arbitrary: acc) simp_all

lemma newest_acc: "newest acc t = (case newest None t of None \<Rightarrow> acc | Some d \<Rightarrow> Some d)"
proof (induction t arbitrary: acc)
  case Nil
  show ?case by simp
next
  case (Cons e t)
  show ?case
  proof (cases "fetched e")
    case None
    then show ?thesis using Cons.IH [of acc] by simp
  next
    case (Some d)
    then show ?thesis using Cons.IH [of "Some d"] by (simp split: option.splits)
  qed
qed

lemma try_catch_finally_simps [simp]:
  "try_catch_finally (t, Normal) h finally_block = (t @ [SetLoading False], Normal)"
  "try_catch_finally (t, Throw e) h finally_block =
     (t @ fst (h e) @ [SetLoading False], snd (h e))"
  by (simp_all add: try_catch_finally_def finally_block_def split: prod.splits)

lemma fetchEvents_catch_simps [simp]:
  "fst (fetchEvents_catch e) =
     [ConsoleError ''Error fetching events:'' e,
      SetMessage (cross_mark @ '' Error: '' @ err_message e)]"
  "snd (fetchEvents_catch e) = Normal"
  by (simp_all add: fetchEvents_catch_def)

lemma fetchEvents_resume_Rejected [simp]:
  "fetchEvents_resume (Rejected e) =
     ([ConsoleError ''Error fetching events:'' e,
       SetMessage (cross_mark @ '' Error: '' @ err_message e), SetLoading False], Normal)"
  by (simp add: fetchEvents_resume_def fetchEvents_try_def)

lemma fetchEvents_resume_Resolved [simp]:
  "fetchEvents_resume (Resolved r) =
     (case interpolate (data r) ''length'' of
        Inl e \<Rightarrow>
          ([SetEvents (data r), ConsoleError ''Error fetching events:'' e,
            SetMessage (cross_mark @ '' Error: '' @ err_message e), SetLoading False], Normal)
      | Inr n \<Rightarrow>
          ([SetEvents (data r),
            SetMessage (check_mark @ '' Fetched '' @ n @ '' events''),
            SetLoading False], Normal))"
  by (simp add: fetchEvents_resume_def fetchEvents_try_def split: sum.splits)

lemma fetchEvents_begin_eq:
  "fetchEvents_begin api w =
     ([SetLoading True, SetMessage [], Api get_events (fst (api w get_events))],
      fst (api w get_events), snd (api w get_events))"
  by (simp add: fetchEvents_begin_def split: prod.splits)

lemma fetchEvents_eq:
  "fetchEvents api w =
     \<lparr>own = ([SetLoading True, SetMessage [], Api get_events (fst (api w get_events))] @
              fst (fetchEvents_resume (fst (api w get_events))),
             snd (fetchEvents_resume (fst (api w get_events)))),
      detached = ([], Normal), world = snd (api w get_events)\<rparr>"
  by (simp add: fetchEvents_def fetchEvents_begin_eq split: prod.splits)

lemma then_refetch_eq:
  "then_refetch api w said =
     ((said @ [SetLoading True, SetMessage [], Api get_events (fst (api w get_events))], Normal),
      fetchEvents_resume (fst (api w get_events)), snd (api w get_events))"
  by (simp add: then_refetch_def fetchEvents_begin_eq case_prod_beta)

lemma finish_eq:
  "finish pre label (tried, det, w') =
     \<lparr>own = (pre @ fst (try_catch_finally tried (response_catch label) finally_block),
             snd (try_catch_finally tried (response_catch label) finally_block)),
      detached = det, world = w'\<rparr>"
  by (simp add: finish_def split: prod.splits)

lemma fetchEvents_resume_nonempty [simp]: "fst (fetchEvents_resume out) \<noteq> []"
  by (cases out) (simp_all split: sum.splits)

lemma fetchEvents_resume_last [simp]:
  "last (fst (fetchEvents_resume out)) = SetLoading False"
  by (cases out) (simp_all split: sum.splits)

lemma fetchEvents_resume_Normal [simp]: "snd (fetchEvents_resume out) = Normal"
  by (cases out) (simp_all split: sum.splits)

lemma fetchEvents_resume_loading [simp]:
  "loading (apply_trace (fst (fetchEvents_resume out)) s) = False"
  by (cases out) (simp_all split: sum.splits)

lemma fetchEvents_resume_events [simp]:
  "events (apply_trace (fst (fetchEvents_resume out)) s) =
     (case out of Resolved r \<Rightarrow> data r | Rejected e \<Rightarrow> events s)"
  by (cases out) (simp_all split: sum.splits)

lemma fetchEvents_resume_requests [simp]: "requests (fst (fetchEvents_resume out)) = []"
  by (cases out) (simp_all split: sum.splits)

lemma fetchEvents_resume_newest [simp]: "newest acc (fst (fetchEvents_resume out)) = acc"
  by (cases out) (simp_all split: sum.splits)

lemma fetchEvents_resume_justified:
  "justified (fetched (Api get_events out)) (fst (fetchEvents_resume out))"
  by (cases out) (simp_all split: sum.splits)

lemmas try_defs = createEvent_try_def updateEvent_try_def deleteEvent_try_def
  fetchWithAuth_try_def submitOrder_try_def thrown_def response_catch_def

lemmas handler_defs = createEvent_def updateEvent_def deleteEvent_def
  fetchWithAuth_def submitOrder_def

lemmas request_defs = get_events_def post_event_def patch_event_def delete_event_def
  get_user_def post_order_def

lemma step_eq:
  "step api opn (s, w) =
     (apply_trace (trace_of (perform api opn w)) s, world (perform api opn w))"
  by (simp add: step_def Let_def)

lemma session_Cons [simp]:
  "session api (opn # ops) w =
     (trace_of (perform api opn w) @ fst (session api ops (world (perform api opn w))),
      snd (session api ops (world (perform api opn w))))"
  by (simp add: Let_def case_prod_beta)

declare session.simps(2) [simp del]

lemma run_ops_session:
  "run_ops api ops (s, w) =
     (apply_trace (fst (session api ops w)) s, snd (session api ops w))"
proof (induction ops arbitrary: s w)
  case Nil
  show ?case by (simp add: run_ops_def)
next
  case (Cons opn ops)
  have "run_ops api (opn # ops) (s, w) = run_ops api ops (step api opn (s, w))"
    by (simp add: run_ops_def)
  also have "\<dots> = run_ops api ops
      (apply_trace (trace_of (perform api opn w)) s, world (perform api opn w))"
    by (simp add: step_eq)
  finally show ?case
    by (simp add: Cons.IH)
qed

lemma perform_events:
  "events (apply_trace (trace_of (perform api opn w)) s) =
     (case last_fetched (trace_of (perform api opn w)) of None \<Rightarrow> events s | Some d \<Rightarrow> d)"
  by (cases opn)
     (auto simp: fetchEvents_eq handler_defs try_defs finish_eq then_refetch_eq
       trace_of_def last_fetched_def case_prod_beta request_defs
       split: outcome.splits sum.splits)

lemma perform_justified: "justified p (trace_of (perform api opn w))"
  using fetchEvents_resume_justified
  by (cases opn)
     (auto simp: fetchEvents_eq handler_defs try_defs finish_eq then_refetch_eq
       trace_of_def case_prod_beta split: outcome.splits sum.splits)

lemma session_events:
  "events (apply_trace (fst (session api ops w)) s) =
     (case last_fetched (fst (session api ops w)) of None \<Rightarrow> events s | Some d \<Rightarrow> d)"
proof (induction ops arbitrary: s w)
  case Nil
  show ?case by (simp add: last_fetched_def)
next
  case (Cons opn ops)
  let ?r = "perform api opn w"
  let ?t = "fst (session api ops (world ?r))"
  have a: "events (apply_trace ?t (apply_trace (trace_of ?r) s)) =
      (case last_fetched ?t of None \<Rightarrow> events (apply_trace (trace_of ?r) s) | Some d \<Rightarrow> d)"
    by (rule Cons.IH)
  have b: "last_fetched (trace_of ?r @ ?t) =
      (case last_fetched ?t of None \<Rightarrow> last_fetched (trace_of ?r) | Some d \<Rightarrow> Some d)"
    unfolding last_fetched_def newest_append
    by (rule newest_acc)
  show ?case
    using a b perform_events [of api opn w s]
    by (simp split: option.splits)
qed

lemma justified_append:
  "justified p t \<Longrightarrow> (\<And>q. justified q u) \<Longrightarrow> justified p (t @ u)"
  by (induction p t rule: justified.induct) simp_all

lemma session_justified: "justified p (fst (session api ops w))"
proof (induction ops arbitrary: p w)
  case Nil
  show ?case by simp
next
  case (Cons opn ops)
  show ?case
    unfolding session_Cons fst_conv
    by (rule justified_append [OF perform_justified Cons.IH])
qed

lemma rejected_events:
  "fst (api w (first_request opn)) = Rejected e \<Longrightarrow>
     events (fst (step api opn (s, w))) = events s"
  by (cases opn)
     (auto simp: fetchEvents_eq handler_defs try_defs finish_eq step_eq
       trace_of_def case_prod_beta split: sum.splits)

lemma mount_events:
  "el_events (fst (EventListExample_mount api (l, w))) =
     (case fst (api w get_events) of Resolved r \<Rightarrow> data r | Rejected e \<Rightarrow> el_events l)"
  by (simp add: EventListExample_mount_def case_prod_beta split: outcome.splits prod.splits)

lemma perform_requests:
  "requests (trace_of (perform api opn w)) = []
   \<or> requests (trace_of (perform api opn w)) = [first_request opn]
   \<or> requests (trace_of (perform api opn w)) = [first_request opn, get_events]"
  by (cases opn)
     (auto simp: fetchEvents_eq handler_defs try_defs finish_eq then_refetch_eq
       trace_of_def case_prod_beta split: outcome.splits sum.splits)

lemma perform_no_authorization:
  "\<not> is_auth opn \<Longrightarrow> list_all no_authorization (requests (trace_of (perform api opn w)))"
  using perform_requests [of api opn w]
  by (cases opn) (auto simp: no_authorization_def request_defs)

lemma session_no_authorization:
  "list_all (\<lambda>opn. \<not> is_auth opn) ops \<Longrightarrow>
     list_all no_authorization (requests (fst (session api ops w)))"
proof (induction ops arbitrary: w)
  case Nil
  show ?case by simp
next
  case (Cons opn ops)
  then show ?case by (simp add: perform_no_authorization)
qed

lemma fetchEvents_requests [simp]:
  "requests (trace_of (fetchEvents api w)) = [get_events]"
  by (simp add: fetchEvents_eq trace_of_def)

lemma replicate_fetch_requests:
  "requests (fst (session api (replicate n FetchEvents) w)) = replicate n get_events"
  by (induction n arbitrary: w) simp_all

lemma delete_then_fetch:
  assumes "snd (api w (delete_event i)) = w" and "snd (api w get_events) = w"
  shows "events (fst (run_ops api [DeleteEvent i, FetchEvents] (s, w))) =
    events (fst (run_ops api [FetchEvents] (s, w)))"
  using assms
  by (auto simp: run_ops_def step_eq fetchEvents_eq deleteEvent_def try_defs
      finish_eq then_refetch_eq trace_of_def case_prod_beta
      split: outcome.splits sum.splits)

lemma response_message_shown:
  assumes "opn = CreateEvent now \<or> opn = SubmitOrder \<or> opn = UpdateEvent (JStr i)
      \<or> opn = DeleteEvent (JStr i) \<or> opn = FetchWithAuth (JStr i)"
    and "fst (api w (first_request opn)) = Rejected e"
    and "err_response e = Some r"
    and "data r = JObj kvs"
    and "map_of kvs ''message'' = Some (JStr m)"
    and "m \<noteq> []"
  shows "message (fst (step api opn (s, w))) = cross_mark @ '' Error: '' @ m"
  using assms
  by (auto simp: handler_defs try_defs finish_eq step_eq trace_of_def case_prod_beta
      response_message_def js_or_def)

lemma default_message_shown:
  assumes "opn = CreateEvent now \<or> opn = SubmitOrder \<or> opn = UpdateEvent (JStr i)
      \<or> opn = DeleteEvent (JStr i) \<or> opn = FetchWithAuth (JStr i)"
    and "fst (api w (first_request opn)) = Rejected e"
    and "\<not> truthy (response_message e)"
  shows "message (fst (step api opn (s, w))) = cross_mark @ '' Error: '' @ err_message e"
  using assms
  by (auto simp: handler_defs try_defs finish_eq step_eq trace_of_def case_prod_beta
      js_or_def)

lemma fetchEvents_message_shown:
  "fst (api w get_events) = Rejected e \<Longrightarrow>
     message (fst (step api FetchEvents (s, w))) = cross_mark @ '' Error: '' @ err_message e"
  by (simp add: step_eq fetchEvents_eq trace_of_def)

lemma createEvent_requests:
  "requests (trace_of (createEvent api now w)) =
     (case fst (api w (post_event now)) of
        Rejected e \<Rightarrow> [post_event now]
      | Resolved r \<Rightarrow>
          (case interpolate (data r) ''id'' of
             Inl e \<Rightarrow> [post_event now]
           | Inr i \<Rightarrow> [post_event now, get_events]))"
  by (simp add: createEvent_def try_defs finish_eq then_refetch_eq
       trace_of_def case_prod_beta split: outcome.splits sum.splits)

lemma updateEvent_requests:
  "requests (trace_of (updateEvent api (JStr i) w)) =
     (case fst (api w (patch_event (JStr i))) of
        Rejected e \<Rightarrow> [patch_event (JStr i)]
      | Resolved r \<Rightarrow> [patch_event (JStr i), get_events])"
  by (simp add: updateEvent_def try_defs finish_eq then_refetch_eq
       trace_of_def case_prod_beta split: outcome.splits sum.splits)

lemma deleteEvent_requests:
  "requests (trace_of (deleteEvent api (JStr i) w)) =
     (case fst (api w (delete_event (JStr i))) of
        Rejected e \<Rightarrow> [delete_event (JStr i)]
      | Resolved r \<Rightarrow> [delete_event (JStr i), get_events])"
  by (simp add: deleteEvent_def try_defs finish_eq then_refetch_eq
       trace_of_def case_prod_beta split: outcome.splits sum.splits)

lemma fetchEvents_settles:
  "snd (own (fetchEvents api w)) = Normal \<and> snd (detached (perform api opn w)) = Normal"
  by (cases opn)
     (auto simp: fetchEvents_eq handler_defs try_defs finish_eq then_refetch_eq
       case_prod_beta split: outcome.splits sum.splits)

lemma createEvent_sets_id_message:
  assumes "fst (api w (post_event now)) = Resolved r"
    and "interpolate (data r) ''id'' = Inr i"
  shows "take 4 (fst (own (createEvent api now w))) =
      [SetLoading True, SetMessage [], Api (post_event now) (Resolved r),
       SetMessage (check_mark @ '' Event created with ID: '' @ i)]
    \<and> message (apply_trace (fst (own (createEvent api now w))) s) = []"
  using assms
  by (simp add: createEvent_def try_defs finish_eq then_refetch_eq case_prod_beta)

section \<open>Properties of the components\<close>

text \<open>
  C1. When an operation fails with a response of status 400 or more, the message shown is
  the \<^verbatim>\<open>message\<close> field of the response body when there is one, and a default
  otherwise, for every handler. \<open>response_message_shown\<close> and \<open>default_message_shown\<close>
  above are this for \<^verbatim>\<open>createEvent\<close>, \<^verbatim>\<open>updateEvent\<close>, \<^verbatim>\<open>deleteEvent\<close>,
  \<^verbatim>\<open>fetchWithAuth\<close> and \<^verbatim>\<open>submitOrder\<close>. The \<^verbatim>\<open>catch\<close> clause of
  \<^verbatim>\<open>fetchEvents\<close> reads \<^verbatim>\<open>error.message\<close> alone
  (\<open>fetchEvents_message_shown\<close>): answered 404 with the body
  \<^verbatim>\<open>{"message":"not found"}\<close>, it shows the message of the error object and not
  \<^verbatim>\<open>not found\<close>.
\<close>

theorem fetchEvents_ignores_response_message:
  "message (fst (step
      (\<lambda>w q. (Rejected \<lparr>err_message = ''Request failed with status code 404'',
         err_response =
           Some \<lparr>status = 404, data = JObj [(''message'', JStr ''not found'')]\<rparr>\<rparr>, w))
      FetchEvents (initial, ()))) =
   cross_mark @ '' Error: Request failed with status code 404''"
  by (simp add: step_eq fetchEvents_eq trace_of_def)



text \<open>
  C3. A mutation is followed by a refetch of the list exactly when its request resolved.
  \<open>updateEvent_requests\<close> and \<open>deleteEvent_requests\<close> above are this for
  \<^verbatim>\<open>updateEvent\<close> and \<^verbatim>\<open>deleteEvent\<close>. \<^verbatim>\<open>createEvent\<close> puts
  \<^verbatim>\<open>response.data.id\<close> into its message before it calls \<^verbatim>\<open>fetchEvents()\<close>
  (\<open>createEvent_requests\<close>): when the \<^verbatim>\<open>POST\<close> resolves with the body
  \<^verbatim>\<open>null\<close>, the read throws, the handler shows an error, and no
  \<^verbatim>\<open>GET /events\<close> follows although the request resolved.
\<close>

theorem createEvent_null_body_no_refetch:
  "requests (trace_of (createEvent
      (\<lambda>w q. (Resolved \<lparr>status = 201, data = JNull\<rparr>, w))
      ''2026-11-02T00:00:00.000Z'' ())) = [post_event ''2026-11-02T00:00:00.000Z'']
   \<and> message (fst (step (\<lambda>w q. (Resolved \<lparr>status = 201, data = JNull\<rparr>, w))
        (CreateEvent ''2026-11-02T00:00:00.000Z'') (initial, ()))) =
       cross_mark @ '' Error: Cannot read properties of null (reading '' @
         [CHR 0x27] @ ''id'' @ [CHR 0x27] @ '')''"
  by (simp add: step_eq createEvent_def try_defs finish_eq trace_of_def
      interpolate_def member_def type_error_def response_message_def js_or_def)

text \<open>
  C4. No error escapes a handler: every handler catches what the \<^verbatim>\<open>api\<close> call
  raises and turns it into a message. \<^verbatim>\<open>fetchEvents\<close>, and the refetch a mutation
  leaves behind, always do (\<open>fetchEvents_settles\<close>, \<open>fetchEvents_message_shown\<close>). The
  \<^verbatim>\<open>catch\<close> clause of the other five handlers prints
  \<^verbatim>\<open>error.response?.data?.message\<close> in a template literal: when the request is
  rejected with the body \<^verbatim>\<open>{"message":{"toString":1}}\<close>, printing that message
  throws inside the \<^verbatim>\<open>catch\<close> clause of \<^verbatim>\<open>deleteEvent\<close>, the promise of the
  handler is rejected with that TypeError, and the message stays empty.
\<close>

theorem deleteEvent_catch_throws:
  "snd (own (perform
      (\<lambda>w q. (Rejected \<lparr>err_message = ''Request failed with status code 400'',
         err_response =
           Some \<lparr>status = 400,
             data = JObj [(''message'', JObj [(''toString'', JNum ''1'')])]\<rparr>\<rparr>, w))
      (DeleteEvent (JStr ''123'')) ())) =
     Throw \<lparr>err_message = ''Cannot convert object to primitive value'',
       err_response = None\<rparr>
   \<and> message (fst (step
      (\<lambda>w q. (Rejected \<lparr>err_message = ''Request failed with status code 400'',
         err_response =
           Some \<lparr>status = 400,
             data = JObj [(''message'', JObj [(''toString'', JNum ''1'')])]\<rparr>\<rparr>, w))
      (DeleteEvent (JStr ''123'')) (initial, ()))) = []"
  by (simp add: step_eq deleteEvent_def try_defs finish_eq trace_of_def
      response_message_def js_or_def cannot_convert_def)

text \<open>
  C5. When \<^verbatim>\<open>POST /events\<close> resolves with status 201 and the body
  \<^verbatim>\<open>{"id":"abc123"}\<close>, \<^verbatim>\<open>createEvent\<close> reports that id in its success message.
  The handler does call \<^verbatim>\<open>setMessage\<close> with the success text that ends with the id,
  as soon as the request resolves (\<open>createEvent_sets_id_message\<close> above, for every id
  that prints). The \<^verbatim>\<open>fetchEvents()\<close> of the next line sets the message to the empty
  string in the same run: the message is empty when the handler settles, and it is the
  text of the refetch once that has settled.
\<close>

theorem createEvent_id_message_overwritten:
  "take 4 (fst (own (createEvent demo_server ''2026-11-02T00:00:00.000Z'' []))) =
      [SetLoading True, SetMessage [],
       Api (post_event ''2026-11-02T00:00:00.000Z'')
         (Resolved \<lparr>status = 201, data = JObj [(''id'', JStr ''abc123'')]\<rparr>),
       SetMessage (check_mark @ '' Event created with ID: abc123'')]
   \<and> message (apply_trace (fst (own (createEvent demo_server
        ''2026-11-02T00:00:00.000Z'' []))) initial) = []
   \<and> message (fst (step demo_server (CreateEvent ''2026-11-02T00:00:00.000Z'')
        (initial, []))) = check_mark @ '' Fetched 1 events''"
  by (simp add: step_eq createEvent_def try_defs finish_eq then_refetch_eq trace_of_def
      demo_server_def request_defs interpolate_def member_def show_nat_one)

text \<open>
  C6. For every token string, \<^verbatim>\<open>fetchWithAuth(token)\<close> hands the \<^verbatim>\<open>api\<close> one
  request, a \<^verbatim>\<open>GET\<close> of \<^verbatim>\<open>/auth/user\<close> whose only header is
  \<^verbatim>\<open>Authorization\<close> with the value \<^verbatim>\<open>Bearer\<close>, a space and the token; the
  component keeps no credential: no request of the operations that follow, other than a
  \<^verbatim>\<open>fetchWithAuth\<close> given a token again, has an \<^verbatim>\<open>Authorization\<close> header.
\<close>

theorem fetchWithAuth_bearer_per_call:
  "requests (trace_of (fetchWithAuth api (JStr token) w)) =
     [\<lparr>meth = GET, path = ''/auth/user'', body = None,
       headers = [(''Authorization'', ''Bearer '' @ token)]\<rparr>]
   \<and> (list_all (\<lambda>opn. \<not> is_auth opn) ops \<longrightarrow>
        list_all no_authorization
          (requests (fst (session api ops (world (fetchWithAuth api (JStr token) w))))))"
  using session_no_authorization [of ops api "world (fetchWithAuth api (JStr token) w)"]
  by (auto simp: fetchWithAuth_def try_defs finish_eq trace_of_def
      get_user_def printed_def case_prod_beta split: outcome.splits sum.splits)

theorem fetchWithAuth_bearer_per_call_witness:
  "requests (trace_of (fetchWithAuth demo_server (JStr ''s3cret'') [])) =
     [\<lparr>meth = GET, path = ''/auth/user'', body = None,
       headers = [(''Authorization'', ''Bearer s3cret'')]\<rparr>]
   \<and> list_all (\<lambda>opn. \<not> is_auth opn) [FetchEvents, SubmitOrder]
   \<and> list_all no_authorization
        (requests (fst (session demo_server [FetchEvents, SubmitOrder]
           (world (fetchWithAuth demo_server (JStr ''s3cret'') [])))))"
  using fetchWithAuth_bearer_per_call [of demo_server "''s3cret''" "[]"
    "[FetchEvents, SubmitOrder]"]
  by (simp add: get_user_def printed_def)

text \<open>
  C7. Nothing is cached or deduplicated: \<open>n\<close> calls of \<^verbatim>\<open>fetchEvents\<close> in a row
  hand the \<^verbatim>\<open>api\<close> \<open>n\<close> requests \<^verbatim>\<open>GET /events\<close>; and when neither the
  \<^verbatim>\<open>DELETE\<close> nor a \<^verbatim>\<open>GET /events\<close> changes the remote state, the list shown
  after \<^verbatim>\<open>deleteEvent\<close> and then \<^verbatim>\<open>fetchEvents\<close> is the list that
  \<^verbatim>\<open>fetchEvents\<close> alone shows.
\<close>

theorem every_fetch_is_requested:
  "requests (fst (session api (replicate n FetchEvents) w)) = replicate n get_events
   \<and> (snd (api w (delete_event i)) = w \<longrightarrow> snd (api w get_events) = w \<longrightarrow>
        events (fst (run_ops api [DeleteEvent i, FetchEvents] (s, w))) =
        events (fst (run_ops api [FetchEvents] (s, w))))"
  using replicate_fetch_requests [of api n w] delete_then_fetch [of api w i s]
  by simp

theorem every_fetch_is_requested_witness:
  "requests (fst (session demo_server (replicate 2 FetchEvents) [JStr ''e''])) =
     [get_events, get_events]
   \<and> snd (demo_server [JStr ''e''] (delete_event (JStr ''123''))) = [JStr ''e'']
   \<and> snd (demo_server [JStr ''e''] get_events) = [JStr ''e'']
   \<and> events (fst (run_ops demo_server [DeleteEvent (JStr ''123''), FetchEvents]
        (initial, [JStr ''e'']))) = JArr [JStr ''e'']
   \<and> events (fst (run_ops demo_server [FetchEvents] (initial, [JStr ''e'']))) =
       JArr [JStr ''e'']"
proof -
  have a: "snd (demo_server [JStr ''e''] (delete_event (JStr ''123''))) = [JStr ''e'']"
    by (simp add: demo_server_def delete_event_def)
  have b: "snd (demo_server [JStr ''e''] get_events) = [JStr ''e'']"
    by (simp add: demo_server_def get_events_def)
  have c: "events (fst (run_ops demo_server [FetchEvents] (initial, [JStr ''e'']))) =
      JArr [JStr ''e'']"
    by (simp add: run_ops_def step_eq fetchEvents_eq trace_of_def demo_server_def
      get_events_def interpolate_def member_def)
  show ?thesis
    using every_fetch_is_requested [of demo_server 2 "[JStr ''e'']" "JStr ''123''" initial]
      a b c
    by (simp add: numeral_2_eq_2)
qed

text \<open>
  C8. Every operation of APIUsageExamples sets the loading flag to true first and to false
  last, on every path: the first effect of a handler is \<^verbatim>\<open>setLoading(true)\<close>, the
  last effect before its promise settles is the \<^verbatim>\<open>setLoading(false)\<close> of its
  \<^verbatim>\<open>finally\<close> block, the last effect of all (with the detached refetch of a
  mutation) is \<^verbatim>\<open>setLoading(false)\<close> again, and the flag is false when the handler
  completes and when nothing is pending any more, whatever the \<^verbatim>\<open>api\<close> answers.
\<close>

theorem loading_set_and_reset:
  "hd (fst (own (perform api opn w))) = SetLoading True
   \<and> last (fst (own (perform api opn w))) = SetLoading False
   \<and> last (trace_of (perform api opn w)) = SetLoading False
   \<and> loading (apply_trace (fst (own (perform api opn w))) s) = False
   \<and> loading (fst (step api opn (s, w))) = False"
  by (cases opn)
     (auto simp: fetchEvents_eq handler_defs try_defs finish_eq then_refetch_eq
       trace_of_def step_eq case_prod_beta split: outcome.splits sum.splits)

text \<open>
  C9. \<^verbatim>\<open>fetchWithAuth\<close> and \<^verbatim>\<open>submitOrder\<close> never touch the events list:
  whatever the \<^verbatim>\<open>api\<close> answers, \<open>events\<close> is the same after as before, no
  \<^verbatim>\<open>setEvents\<close> is among their effects, and the component state afterwards is the
  state before with the loading flag and the message replaced.
\<close>

theorem auth_and_order_keep_events:
  "events (fst (step api (FetchWithAuth token) (s, w))) = events s
   \<and> events (fst (step api SubmitOrder (s, w))) = events s
   \<and> filter sets_events (trace_of (fetchWithAuth api token w)) = []
   \<and> filter sets_events (trace_of (submitOrder api w)) = []
   \<and> fst (step api (FetchWithAuth token) (s, w)) =
       s\<lparr>loading := False, message := message (fst (step api (FetchWithAuth token) (s, w)))\<rparr>
   \<and> fst (step api SubmitOrder (s, w)) =
       s\<lparr>loading := False, message := message (fst (step api SubmitOrder (s, w)))\<rparr>"
  by (auto simp: fetchWithAuth_def submitOrder_def try_defs finish_eq step_eq
       trace_of_def case_prod_beta split: outcome.splits sum.splits)

end
